theory Spec2Isabelle
  imports Complex_Main
begin

section \<open>Tensors and the operations of the tensor library\<close>

text \<open>
  The program computes on dense float tensors. Here a tensor is a nested list of reals,
  outermost axis first: a vector is a \<open>real list\<close>, a \<open>(B, d)\<close> matrix a list of
  \<open>B\<close> rows. Axes of size one that the source inserts only to broadcast
  (\<open>[:, None]\<close>, \<open>unsqueeze\<close>, \<open>keepdim\<close>) are left out. Arithmetic is that of the
  reals: rounding, overflow and NaN are not part of this development. The operations of
  the tensor library are given on operands of the shapes the source documents; the shape
  errors the library raises on other operands are not modelled.
\<close>

type_synonym vec = "real list"
type_synonym mat = "real list list"

text \<open>
  \<open>torch.logsumexp\<close> along the last axis, as the library computes it: the maximum is
  taken out before exponentiating.
\<close>

definition logsumexp :: "vec \<Rightarrow> real" where
  "logsumexp xs = (let m = Max (set xs) in m + ln (\<Sum>x\<leftarrow>xs. exp (x - m)))"




text \<open>
  \<open>torch.cat(ts, 1)\<close> of a list of tensors of shapes \<open>(B, d_i, ...)\<close>: for each batch
  element, the concatenation of its rows.
\<close>

definition cat1 :: "'a list list list \<Rightarrow> 'a list list" where
  "cat1 ts = map concat (transpose ts)"

section \<open>MixtureOfBivariateNormal\<close>

text \<open>
  The four parameter tensors of the distribution at one (batch, time) position:
  \<open>log_pi\<close> and \<open>rho\<close> of shape \<open>(K)\<close>, \<open>mu\<close> and \<open>sigma\<close> of shape \<open>(K, 2)\<close>.
  The batched object of the source is the list of these records, one per position.
\<close>

record mixture =
  log_pi :: vec
  mu :: mat
  sigma :: mat
  rho :: vec

text \<open>
  The errors of this development. \<open>IndexError\<close> is Python's, on indexing an empty list;
  \<open>RuntimeError\<close> is the one \<open>torch.cat\<close> raises on an empty list of tensors.
  \<open>DimensionMismatch\<close> and \<open>InvalidDistributionParameter\<close> are the two categories the
  specification names for contract violations.
\<close>

datatype error = IndexError | RuntimeError | DimensionMismatch | InvalidDistributionParameter


text \<open>
  The body of \<open>log_prob\<close> for one component: \<open>x\<close>, \<open>m\<close> and \<open>s\<close> are the point, the
  mean and the standard deviation (two entries each), \<open>r\<close> the correlation.
\<close>

definition log_N :: "vec \<Rightarrow> vec \<Rightarrow> vec \<Rightarrow> real \<Rightarrow> real" where
  "log_N x m s r =
     (let t = map2 (/) (map2 (-) x m) s;
          Z = sum_list (map (\<lambda>v. v ^ 2) t) - 2 * r * prod_list t;
          num = - Z / (2 * (1 - r ^ 2));
          denom = ln (2 * pi) + sum_list (map ln s) + 0.5 * ln (1 - r ^ 2)
      in num - denom)"

definition log_prob :: "mixture \<Rightarrow> vec \<Rightarrow> real" where
  "log_prob d x =
     logsumexp (map2 (+) (log_pi d)
       (map (\<lambda>(m, s, r). log_N x m s r) (zip (mu d) (zip (sigma d) (rho d)))))"

text \<open>
  The random source. For a fixed state of the generator each random call is a function
  of its argument, so the calls of one generation step are given as such:
  \<open>multinomial\<close> maps the \<open>(B, K)\<close> weights to the \<open>B\<close> indices drawn,
  \<open>randn1\<close> and \<open>randn2\<close> are the two \<open>randn_like\<close> draws of shape \<open>(B)\<close>, and
  \<open>bernoulli\<close> maps the \<open>(B, 1)\<close> probabilities to the \<open>(B, 1)\<close> flags drawn.
\<close>

record draws =
  multinomial :: "mat \<Rightarrow> nat list"
  randn1 :: vec
  randn2 :: vec
  bernoulli :: "mat \<Rightarrow> mat"

text \<open>\<open>sample\<close> for one batch element, from its index and its two normal draws.\<close>

definition sample_point :: "mixture \<Rightarrow> nat \<Rightarrow> real \<Rightarrow> real \<Rightarrow> vec" where
  "sample_point d index z1 z2 =
     (let m = mu d ! index; s = sigma d ! index; r = rho d ! index;
          mu1 = m ! 0; mu2 = m ! 1;
          sigma1 = s ! 0; sigma2 = s ! 1;
          x1 = mu1 + sigma1 * z1;
          mult = z2 * ((1 - r ^ 2) powr 0.5) + z1 * r;
          x2 = mu2 + sigma2 * mult
      in [x1, x2])"

text \<open>\<open>sample\<close> on the batch: one mixture per batch element.\<close>

definition sample :: "draws \<Rightarrow> mixture list \<Rightarrow> mat" where
  "sample g ds =
     (let index = multinomial g (map (\<lambda>d. map exp (log_pi d)) ds)
      in map (\<lambda>(d, i, z1, z2). sample_point d i z1 z2)
           (zip ds (zip index (zip (randn1 g) (randn2 g)))))"

section \<open>From the decoder's output to the mixture\<close>




section \<open>Linear layers and recurrent cells\<close>

text \<open>\<open>nn.Linear\<close>: the weight has one row per output, and the layer acts on each row.\<close>

record linear =
  weight :: mat
  bias :: vec

definition apply_linear :: "linear \<Rightarrow> vec \<Rightarrow> vec" where
  "apply_linear l x = map2 (\<lambda>row b. sum_list (map2 (*) row x) + b) (weight l) (bias l)"

text \<open>
  \<open>nn.LSTMCell\<close> is the library's: here any function from the \<open>(B, d)\<close> input and the
  previous \<open>(h, c)\<close> to the new \<open>(h, c)\<close>.
\<close>

type_synonym cell = "mat \<Rightarrow> mat \<times> mat \<Rightarrow> mat \<times> mat"

section \<open>GaussianAttention\<close>

record attention =
  n_mixtures :: nat
  linear :: linear

text \<open>
  \<open>Tensor.chunk(3, dim=-1)\<close>: chunks of \<open>ceil (n / 3)\<close> entries; three of them on a
  width that is a multiple of three.
\<close>

definition chunk3 :: "vec \<Rightarrow> vec \<times> vec \<times> vec" where
  "chunk3 xs =
     (let n = (length xs + 2) div 3 in (take n xs, take n (drop n xs), drop (2 * n) xs))"

text \<open>
  \<open>forward\<close> on one batch element: \<open>h_t\<close> of shape \<open>(H)\<close>, \<open>k_tm1\<close> of shape
  \<open>(K)\<close>, \<open>ctx\<close> of shape \<open>(T, E)\<close>. \<open>E\<close> is the third entry of \<open>ctx.shape\<close>,
  which a nested list with no row cannot carry. The result is the context vector, the
  \<open>T\<close> weights \<open>phi\<close> and the new \<open>kappa\<close>.
\<close>

definition attention_row :: "attention \<Rightarrow> nat \<Rightarrow> vec \<Rightarrow> vec \<Rightarrow> mat \<Rightarrow> vec \<times> vec \<times> vec" where
  "attention_row p E h_t k_tm1 ctx =
     (case chunk3 (map exp (apply_linear (linear p) h_t)) of (alpha, beta, dk) \<Rightarrow>
        let kappa = map2 (+) dk k_tm1;
            T = length ctx;
            u = map real [0..<T];
            phi = map (\<lambda>u. \<Sum>(a, b, k)\<leftarrow>zip alpha (zip beta kappa).
                              a * exp (- b * (k - u) ^ 2)) u;
            w = map (\<lambda>e. \<Sum>(f, c)\<leftarrow>zip phi ctx. f * c ! e) [0..<E]
        in (w, phi, kappa))"

text \<open>\<open>forward\<close> on the batch: every operation of it acts on each batch element alone.\<close>

definition attention_forward ::
  "attention \<Rightarrow> nat \<Rightarrow> mat \<Rightarrow> mat \<Rightarrow> mat list \<Rightarrow> mat \<times> mat \<times> mat" where
  "attention_forward p E h_t k_tm1 ctx =
     (let rs = map (\<lambda>(h, k, c). attention_row p E h k c) (zip h_t (zip k_tm1 ctx))
      in (map fst rs, map (fst \<circ> snd) rs, map (snd \<circ> snd) rs))"

section \<open>RNNDecoder\<close>

record decoder =
  enc_size :: nat
  layer_0 :: cell
  layer_n :: "cell list"
  attention :: attention
  output_lin :: linear
  h_0 :: mat
  c_0 :: mat
  w_0 :: vec
  k_0 :: vec

text \<open>The carried state \<open>(h_tm1, c_tm1, w_tm1, k_tm1)\<close>; the first two are Python lists.\<close>

type_synonym states = "mat list \<times> mat list \<times> mat \<times> mat"

text \<open>Python's \<open>xs[i]\<close>: a negative index counts from the end.\<close>

definition py_nth :: "'a list \<Rightarrow> int \<Rightarrow> error + 'a" where
  "py_nth xs i =
     (if 0 \<le> i \<and> i < int (length xs) then Inr (xs ! nat i)
      else if i < 0 \<and> - int (length xs) \<le> i then Inr (xs ! nat (int (length xs) + i))
      else Inl IndexError)"

text \<open>Python's \<open>xs[i] = v\<close> for an index that is not negative.\<close>

definition py_set :: "'a list \<Rightarrow> nat \<Rightarrow> 'a \<Rightarrow> error + 'a list" where
  "py_set xs i v = (if i < length xs then Inr (xs[i := v]) else Inl IndexError)"

text \<open>
  The loop over \<open>enumerate(zip(self.layer_n, h_tm1[1:], c_tm1[1:]))\<close>. The zipped list is
  built before the first iteration, so \<open>prev_h\<close> and \<open>prev_c\<close> are the entries the two
  slices held then; \<open>h_tm1[j-1]\<close> and the two assignments go to the lists as they are now.
\<close>

fun layers_loop ::
  "mat \<Rightarrow> mat \<Rightarrow> (nat \<times> cell \<times> mat \<times> mat) list \<Rightarrow> mat list \<times> mat list
     \<Rightarrow> error + (mat list \<times> mat list)" where
  "layers_loop x_t w_tm1 [] (h_tm1, c_tm1) = Inr (h_tm1, c_tm1)"
| "layers_loop x_t w_tm1 ((j, layer, prev_h, prev_c) # rest) (h_tm1, c_tm1) =
     (case py_nth h_tm1 (int j - 1) of
        Inl e \<Rightarrow> Inl e
      | Inr h_jm1 \<Rightarrow>
          (case layer (cat1 [x_t, w_tm1, h_jm1]) (prev_h, prev_c) of (h_j, c_j) \<Rightarrow>
             (case py_set h_tm1 j h_j of
                Inl e \<Rightarrow> Inl e
              | Inr h' \<Rightarrow>
                  (case py_set c_tm1 j c_j of
                     Inl e \<Rightarrow> Inl e
                   | Inr c' \<Rightarrow> layers_loop x_t w_tm1 rest (h', c')))))"

text \<open>One iteration of the loop over the time steps: the output and the new state.\<close>

definition decoder_step :: "decoder \<Rightarrow> mat list \<Rightarrow> mat \<Rightarrow> states \<Rightarrow> error + (mat \<times> states)" where
  "decoder_step p ctx x_t st =
     (case st of (h_tm1, c_tm1, w_tm1, k_tm1) \<Rightarrow>
        (case py_nth h_tm1 0 of
           Inl e \<Rightarrow> Inl e
         | Inr h0 \<Rightarrow>
        (case py_nth c_tm1 0 of
           Inl e \<Rightarrow> Inl e
         | Inr c0 \<Rightarrow>
        (case layer_0 p (cat1 [x_t, w_tm1]) (h0, c0) of (h0', c0') \<Rightarrow>
           let h1 = h_tm1[0 := h0'];
               c1 = c_tm1[0 := c0']
           in (case attention_forward (attention p) (enc_size p) (h1 ! 0) k_tm1 ctx of
                 (w, phi, k) \<Rightarrow>
                   (case layers_loop x_t w
                           (enumerate 0 (zip (layer_n p) (zip (drop 1 h1) (drop 1 c1))))
                           (h1, c1) of
                      Inl e \<Rightarrow> Inl e
                    | Inr (h2, c2) \<Rightarrow>
                        Inr (map (apply_linear (output_lin p)) (cat1 h2), (h2, c2, w, k))))))))"

text \<open>The state of a first call: \<open>prev_states is None\<close>.\<close>

definition init_states :: "decoder \<Rightarrow> nat \<Rightarrow> states" where
  "init_states p bsz =
     (map (replicate bsz) (h_0 p), map (replicate bsz) (c_0 p),
      replicate bsz (w_0 p), replicate bsz (k_0 p))"

text \<open>The loop over \<open>strokes.unbind(1)\<close>, with the list of outputs so far.\<close>

fun decoder_steps ::
  "decoder \<Rightarrow> mat list \<Rightarrow> mat list \<Rightarrow> states \<Rightarrow> mat list \<Rightarrow> error + (mat list \<times> states)" where
  "decoder_steps p ctx [] st outputs = Inr (outputs, st)"
| "decoder_steps p ctx (x_t # xs) st outputs =
     (case decoder_step p ctx x_t st of
        Inl e \<Rightarrow> Inl e
      | Inr (out, st') \<Rightarrow> decoder_steps p ctx xs st' (outputs @ [out]))"

text \<open>
  \<open>forward\<close>: \<open>strokes\<close> of shape \<open>(B, T, 3)\<close> with \<open>B > 0\<close>, \<open>ctx\<close> of shape
  \<open>(B, T', E)\<close>. \<open>unbind(1)\<close> and \<open>torch.stack(outputs, 1)\<close> exchange the first two
  axes; \<open>torch.stack\<close> raises on an empty list.
\<close>

definition decoder_forward ::
  "decoder \<Rightarrow> mat list \<Rightarrow> mat list \<Rightarrow> states option \<Rightarrow> error + (mat list \<times> states)" where
  "decoder_forward p strokes ctx prev_states =
     (let bsz = length strokes;
          st = (case prev_states of None \<Rightarrow> init_states p bsz | Some s \<Rightarrow> s)
      in case decoder_steps p ctx (transpose strokes) st [] of
           Inl e \<Rightarrow> Inl e
         | Inr (outputs, st') \<Rightarrow>
             if outputs = [] then Inl RuntimeError else Inr (transpose outputs, st'))"

section \<open>Seq2Seq\<close>













section \<open>Reference formulas\<close>

text \<open>
  The bivariate normal density as the specification writes it, on the two coordinates of
  the point, of the mean and of the standard deviation, and the correlation.
\<close>

definition Z_ref :: "real \<Rightarrow> real \<Rightarrow> real \<Rightarrow> real \<Rightarrow> real \<Rightarrow> real \<Rightarrow> real \<Rightarrow> real" where
  "Z_ref x1 x2 mu1 mu2 s1 s2 r =
     ((x1 - mu1) / s1) ^ 2 + ((x2 - mu2) / s2) ^ 2
       - 2 * r * ((x1 - mu1) / s1) * ((x2 - mu2) / s2)"

definition log_N_ref :: "real \<Rightarrow> real \<Rightarrow> real \<Rightarrow> real \<Rightarrow> real \<Rightarrow> real \<Rightarrow> real \<Rightarrow> real" where
  "log_N_ref x1 x2 mu1 mu2 s1 s2 r =
     - Z_ref x1 x2 mu1 mu2 s1 s2 r / (2 * (1 - r ^ 2))
       - (ln (2 * pi) + ln s1 + ln s2 + 0.5 * ln (1 - r ^ 2))"

definition N_ref :: "real \<Rightarrow> real \<Rightarrow> real \<Rightarrow> real \<Rightarrow> real \<Rightarrow> real \<Rightarrow> real \<Rightarrow> real" where
  "N_ref x1 x2 mu1 mu2 s1 s2 r =
     exp (- Z_ref x1 x2 mu1 mu2 s1 s2 r / (2 * (1 - r ^ 2)))
       / (2 * pi * s1 * s2 * sqrt (1 - r ^ 2))"

text \<open>
  The brute-force references: the logarithm of the plain sum of the exponentials, and the
  density of the mixture, the sum of the weighted densities of the components.
\<close>

definition log_prob_ref :: "mixture \<Rightarrow> real \<Rightarrow> real \<Rightarrow> real" where
  "log_prob_ref d x1 x2 =
     ln (\<Sum>k\<leftarrow>[0..<length (log_pi d)].
           exp (log_pi d ! k
                + log_N_ref x1 x2 (mu d ! k ! 0) (mu d ! k ! 1)
                    (sigma d ! k ! 0) (sigma d ! k ! 1) (rho d ! k)))"

definition density_ref :: "mixture \<Rightarrow> real \<Rightarrow> real \<Rightarrow> real" where
  "density_ref d x1 x2 =
     (\<Sum>k\<leftarrow>[0..<length (log_pi d)].
           exp (log_pi d ! k)
             * N_ref x1 x2 (mu d ! k ! 0) (mu d ! k ! 1)
                 (sigma d ! k ! 0) (sigma d ! k ! 1) (rho d ! k))"

text \<open>
  A mixture of \<open>K\<close> components has the documented shapes, and its parameters are valid
  when every standard deviation is positive and every correlation is strictly between
  \<open>-1\<close> and \<open>1\<close>.
\<close>

definition shaped :: "nat \<Rightarrow> mixture \<Rightarrow> bool" where
  "shaped K d \<longleftrightarrow>
     length (log_pi d) = K \<and> length (mu d) = K \<and> length (sigma d) = K \<and> length (rho d) = K
     \<and> list_all (\<lambda>m. length m = 2) (mu d) \<and> list_all (\<lambda>s. length s = 2) (sigma d)"

definition valid :: "mixture \<Rightarrow> bool" where
  "valid d \<longleftrightarrow>
     list_all (list_all (\<lambda>s. 0 < s)) (sigma d) \<and> list_all (\<lambda>r. - 1 < r \<and> r < 1) (rho d)"

section \<open>The attention window, as the specification writes it\<close>

text \<open>
  The linear layer of the attention has \<open>3 * n_mixtures\<close> outputs, as its constructor
  builds it.
\<close>

definition wf_attention :: "attention \<Rightarrow> bool" where
  "wf_attention p \<longleftrightarrow>
     length (weight (linear p)) = 3 * n_mixtures p \<and> length (bias (linear p)) = 3 * n_mixtures p"

text \<open>
  The weight of the context position \<open>u\<close>: the sum over the components of
  \<open>alpha_k * exp (- beta_k * (kappa_k - u)^2)\<close>.
\<close>

definition phi_ref :: "vec \<Rightarrow> vec \<Rightarrow> vec \<Rightarrow> nat \<Rightarrow> real" where
  "phi_ref alpha beta kappa u =
     (\<Sum>k\<leftarrow>[0..<length kappa]. alpha ! k * exp (- (beta ! k) * (kappa ! k - real u) ^ 2))"

text \<open>The context vector: the sum over the positions of \<open>phi(u) * ctx[u]\<close>.\<close>

definition window_ref :: "vec \<Rightarrow> mat \<Rightarrow> nat \<Rightarrow> vec" where
  "window_ref phi ctx E = map (\<lambda>e. \<Sum>u\<leftarrow>[0..<length ctx]. phi ! u * ctx ! u ! e) [0..<E]"

text \<open>
  The exponentiated projection of the hidden state and its three parts.
\<close>

definition projection :: "attention \<Rightarrow> vec \<Rightarrow> vec" where
  "projection p h_t = map exp (apply_linear (linear p) h_t)"

definition alpha_ref :: "attention \<Rightarrow> vec \<Rightarrow> vec" where
  "alpha_ref p h_t = take (n_mixtures p) (projection p h_t)"

definition beta_ref :: "attention \<Rightarrow> vec \<Rightarrow> vec" where
  "beta_ref p h_t = take (n_mixtures p) (drop (n_mixtures p) (projection p h_t))"

definition delta_kappa_ref :: "attention \<Rightarrow> vec \<Rightarrow> vec" where
  "delta_kappa_ref p h_t = drop (2 * n_mixtures p) (projection p h_t)"

text \<open>
  A sequence of invocations, each given by its hidden state and its context; the
  \<open>kappa\<close> an invocation returns is the carried state of the next. The result is the
  list of the \<open>kappa\<close> returned.
\<close>

fun kappa_thread :: "attention \<Rightarrow> nat \<Rightarrow> (mat \<times> mat list) list \<Rightarrow> mat \<Rightarrow> mat list" where
  "kappa_thread p E [] k_tm1 = []"
| "kappa_thread p E ((h_t, ctx) # calls) k_tm1 =
     (case attention_forward p E h_t k_tm1 ctx of
        (w, phi, kappa) \<Rightarrow> kappa # kappa_thread p E calls kappa)"

text \<open>The component-wise order on \<open>(B, K)\<close> position states.\<close>

definition kappa_le :: "mat \<Rightarrow> mat \<Rightarrow> bool" where
  "kappa_le k k' \<longleftrightarrow> list_all2 (list_all2 (\<le>)) k k'"

text \<open>An attention of one component whose linear layer is zero.\<close>

definition attention_example :: attention where
  "attention_example = \<lparr>n_mixtures = 1, linear = \<lparr>weight = [[0], [0], [0]], bias = [0, 0, 0]\<rparr>\<rparr>"

text \<open>Every invocation has \<open>B\<close> hidden states and \<open>B\<close> contexts.\<close>

definition calls_shaped :: "nat \<Rightarrow> (mat \<times> mat list) list \<Rightarrow> bool" where
  "calls_shaped B calls \<longleftrightarrow> list_all (\<lambda>(h_t, ctx). length h_t = B \<and> length ctx = B) calls"

text \<open>
  The position states as the specification writes them: each invocation adds the
  increment \<open>delta_kappa\<close> of its hidden state to the carried state.
\<close>

fun kappa_thread_ref :: "attention \<Rightarrow> mat list \<Rightarrow> mat \<Rightarrow> mat list" where
  "kappa_thread_ref p [] k_tm1 = []"
| "kappa_thread_ref p (h_t # hs) k_tm1 =
     (let kappa = map2 (\<lambda>h k. map2 (+) (delta_kappa_ref p h) k) h_t k_tm1
      in kappa # kappa_thread_ref p hs kappa)"

section \<open>Sampling, as the specification writes it\<close>

text \<open>
  The point drawn from the gathered component: \<open>x1 = mu1 + sigma1 * z1\<close> and
  \<open>x2 = mu2 + sigma2 * (z2 * sqrt (1 - rho^2) + z1 * rho)\<close>.
\<close>

definition sample_ref :: "real \<Rightarrow> real \<Rightarrow> real \<Rightarrow> real \<Rightarrow> real \<Rightarrow> real \<Rightarrow> real \<Rightarrow> vec" where
  "sample_ref mu1 mu2 sigma1 sigma2 r z1 z2 =
     [mu1 + sigma1 * z1, mu2 + sigma2 * (z2 * sqrt (1 - r ^ 2) + z1 * r)]"

text \<open>A random source and a mixture of one component, for one batch element.\<close>

definition draws_example :: draws where
  "draws_example = \<lparr>multinomial = (\<lambda>w. [0]), randn1 = [1], randn2 = [1], bernoulli = (\<lambda>p. [[1]])\<rparr>"

definition mixture_example :: mixture where
  "mixture_example = \<lparr>log_pi = [0], mu = [[0, 0]], sigma = [[1, 1]], rho = [0]\<rparr>"

section \<open>The decoder's states over the steps\<close>

text \<open>The list \<open>h_tm1\<close> after each time step of \<open>forward\<close>, from the state \<open>st\<close>.\<close>

fun decoder_trace :: "decoder \<Rightarrow> mat list \<Rightarrow> mat list \<Rightarrow> states \<Rightarrow> mat list list" where
  "decoder_trace p ctx [] st = []"
| "decoder_trace p ctx (x_t # xs) st =
     (case decoder_step p ctx x_t st of
        Inl e \<Rightarrow> []
      | Inr (out, st') \<Rightarrow> fst st' # decoder_trace p ctx xs st')"

text \<open>The state \<open>forward\<close> starts from: the carried one, or the initial one.\<close>

definition start_states :: "decoder \<Rightarrow> mat list \<Rightarrow> states option \<Rightarrow> states" where
  "start_states p strokes prev_states =
     (case prev_states of None \<Rightarrow> init_states p (length strokes) | Some s \<Rightarrow> s)"

text \<open>The output of a step: \<open>self.output(torch.cat(h_tm1, 1))\<close>.\<close>

definition project :: "decoder \<Rightarrow> mat list \<Rightarrow> mat" where
  "project p hs = map (apply_linear (output_lin p)) (cat1 hs)"

text \<open>
  A list of per-layer states has the length of \<open>h\<close> and the last entry of \<open>h\<close>.
\<close>

definition frozen :: "mat list \<Rightarrow> mat list \<Rightarrow> bool" where
  "frozen h hs \<longleftrightarrow> length hs = length h \<and> hs ! (length h - 1) = h ! (length h - 1)"

text \<open>
  A decoder of two layers of width one. The cell of layer 0 returns \<open>(1, 2)\<close>; the cell
  of layer 1 returns as hidden state the last column of its input, which is the hidden
  state it was given, and as cell state the previous one plus one.
\<close>

definition decoder_example :: decoder where
  "decoder_example =
     \<lparr>enc_size = 1,
      layer_0 = (\<lambda>x (h, c). ([[1]], [[2]])),
      layer_n = [\<lambda>x (h, c). (map (\<lambda>r. [last r]) x, map (map (\<lambda>v. v + 1)) c)],
      attention = attention_example,
      output_lin = \<lparr>weight = [[0, 0]], bias = [0]\<rparr>,
      h_0 = [[10], [20]],
      c_0 = [[30], [40]],
      w_0 = [0],
      k_0 = [0]\<rparr>"

section \<open>Well-formed decoders and the scenario of the specification\<close>







section \<open>The generation loop, iteration by iteration\<close>







section \<open>The log-sum-exp and the log-softmax\<close>

lemma sum_list_exp_nonneg: "0 \<le> (\<Sum>x\<leftarrow>xs. exp (x - m :: real))"
  by (rule sum_list_nonneg) auto

lemma sum_list_exp_pos: "xs \<noteq> [] \<Longrightarrow> 0 < (\<Sum>x\<leftarrow>xs. exp (x - m :: real))"
  by (cases xs) (simp_all add: add_pos_nonneg sum_list_exp_nonneg)

lemma sum_list_exp_shift: "(\<Sum>x\<leftarrow>xs. exp (x - m :: real)) = (\<Sum>x\<leftarrow>xs. exp x) / exp m"
  by (induction xs) (simp_all add: exp_diff add_divide_distrib)

text \<open>Taking the maximum out changes nothing: the result is the plain formula.\<close>

lemma logsumexp_direct:
  assumes "xs \<noteq> []"
  shows "logsumexp xs = ln (\<Sum>x\<leftarrow>xs. exp x)"
proof -
  define m where "m = Max (set xs)"
  have pos: "0 < (\<Sum>x\<leftarrow>xs. exp (x - m))"
    using assms by (rule sum_list_exp_pos)
  have "m + ln (\<Sum>x\<leftarrow>xs. exp (x - m)) = ln (exp m * (\<Sum>x\<leftarrow>xs. exp (x - m)))"
    using pos by (simp add: ln_mult)
  also have "exp m * (\<Sum>x\<leftarrow>xs. exp (x - m)) = (\<Sum>x\<leftarrow>xs. exp x)"
    by (simp add: sum_list_exp_shift)
  finally show ?thesis
    by (simp add: logsumexp_def m_def)
qed

lemma exp_logsumexp: "xs \<noteq> [] \<Longrightarrow> exp (logsumexp xs) = (\<Sum>x\<leftarrow>xs. exp x)"
  using sum_list_exp_pos [of xs 0] by (simp add: logsumexp_direct)


section \<open>The mixture parameters\<close>







section \<open>The log-probability\<close>

lemma len2: "length xs = 2 \<Longrightarrow> xs = [xs ! 0, xs ! 1]"
  by (cases xs; cases "tl xs") auto

lemma log_N_pair: "log_N [x1, x2] [m1, m2] [s1, s2] r = log_N_ref x1 x2 m1 m2 s1 s2 r"
proof -
  define t1 t2 where "t1 = (x1 - m1) / s1" and "t2 = (x2 - m2) / s2"
  have t: "map2 (/) (map2 (-) [x1, x2] [m1, m2]) [s1, s2] = [t1, t2]"
    by (simp add: t1_def t2_def)
  show ?thesis
    unfolding log_N_def log_N_ref_def Z_ref_def t Let_def
    by (simp add: t1_def [symmetric] t2_def [symmetric] mult.assoc)
qed

lemma exp_log_N_ref:
  assumes "0 < s1" "0 < s2" "- 1 < r" "r < 1"
  shows "exp (log_N_ref x1 x2 m1 m2 s1 s2 r) = N_ref x1 x2 m1 m2 s1 s2 r"
proof -
  have "r ^ 2 < 1"
    using assms by (simp add: abs_square_less_1 abs_less_iff)
  then have y: "0 < 1 - r ^ 2" by simp
  let ?c = "2 * pi * s1 * s2 * sqrt (1 - r ^ 2)"
  have c: "0 < ?c"
    using assms y by simp
  have "ln (2 * pi) + ln s1 + ln s2 + 0.5 * ln (1 - r ^ 2) = ln ?c"
    using assms y by (simp add: ln_mult ln_sqrt)
  then show ?thesis
    using c by (simp add: log_N_ref_def N_ref_def exp_diff)
qed

lemma components_nth:
  assumes "shaped K d"
  shows "map2 (+) (log_pi d)
           (map (\<lambda>(m, s, r). log_N [x1, x2] m s r) (zip (mu d) (zip (sigma d) (rho d))))
    = map (\<lambda>k. log_pi d ! k + log_N_ref x1 x2 (mu d ! k ! 0) (mu d ! k ! 1)
                    (sigma d ! k ! 0) (sigma d ! k ! 1) (rho d ! k)) [0..<length (log_pi d)]"
    (is "?l = ?r")
proof (rule nth_equalityI)
  show "length ?l = length ?r"
    using assms by (simp add: shaped_def)
next
  fix k assume "k < length ?l"
  then have k: "k < K"
    using assms by (simp add: shaped_def)
  have l: "length (mu d ! k) = 2" "length (sigma d ! k) = 2"
    using assms k by (simp_all add: shaped_def list_all_length)
  have m: "mu d ! k = [mu d ! k ! 0, mu d ! k ! 1]"
    by (rule len2) (rule l)
  have s: "sigma d ! k = [sigma d ! k ! 0, sigma d ! k ! 1]"
    by (rule len2) (rule l)
  have "log_N [x1, x2] (mu d ! k) (sigma d ! k) (rho d ! k) =
        log_N_ref x1 x2 (mu d ! k ! 0) (mu d ! k ! 1)
          (sigma d ! k ! 0) (sigma d ! k ! 1) (rho d ! k)"
    by (subst m, subst s) (rule log_N_pair)
  then show "?l ! k = ?r ! k"
    using assms k by (simp add: shaped_def)
qed

text \<open>
  Claim C2. For a mixture of \<open>K > 0\<close> components of the documented shapes with valid
  parameters and a point \<open>(x1, x2)\<close>, \<open>log_prob\<close> returns the logarithm of the plain sum,
  over the components, of the exponentials of the log-weight plus the log-density of the
  reference formula; its exponential is the density of the mixture.
\<close>

theorem log_prob_reference:
  assumes "0 < K" "shaped K d" "valid d"
  shows "log_prob d [x1, x2] = log_prob_ref d x1 x2 \<and>
         exp (log_prob d [x1, x2]) = density_ref d x1 x2"
proof -
  let ?f = "\<lambda>k. log_pi d ! k + log_N_ref x1 x2 (mu d ! k ! 0) (mu d ! k ! 1)
                    (sigma d ! k ! 0) (sigma d ! k ! 1) (rho d ! k)"
  have ne: "map ?f [0..<length (log_pi d)] \<noteq> []"
    using assms by (simp add: shaped_def)
  have lp: "log_prob d [x1, x2] = logsumexp (map ?f [0..<length (log_pi d)])"
    unfolding log_prob_def components_nth [OF assms(2)] ..
  have a: "log_prob d [x1, x2] = log_prob_ref d x1 x2"
    unfolding lp logsumexp_direct [OF ne] by (simp add: log_prob_ref_def comp_def)
  have "exp (log_prob d [x1, x2]) = (\<Sum>k\<leftarrow>[0..<length (log_pi d)]. exp (?f k))"
    unfolding lp exp_logsumexp [OF ne] by (simp add: comp_def)
  also have "\<dots> = density_ref d x1 x2"
    unfolding density_ref_def
  proof (rule arg_cong [where f = sum_list], rule map_cong [OF refl])
    fix k assume "k \<in> set [0..<length (log_pi d)]"
    then have k: "k < K"
      using assms by (simp add: shaped_def)
    have "0 < sigma d ! k ! 0" "0 < sigma d ! k ! 1" "- 1 < rho d ! k" "rho d ! k < 1"
      using assms k by (auto simp: shaped_def valid_def list_all_length)
    then show "exp (?f k) = exp (log_pi d ! k) * N_ref x1 x2 (mu d ! k ! 0) (mu d ! k ! 1)
                    (sigma d ! k ! 0) (sigma d ! k ! 1) (rho d ! k)"
      by (simp add: exp_add exp_log_N_ref)
  qed
  finally show ?thesis
    using a by simp
qed

theorem log_prob_reference_witness:
  "log_prob \<lparr>log_pi = [0], mu = [[0, 0]], sigma = [[1, 1]], rho = [0]\<rparr> [0, 0] =
   log_prob_ref \<lparr>log_pi = [0], mu = [[0, 0]], sigma = [[1, 1]], rho = [0]\<rparr> 0 0"
  using log_prob_reference
    [of 1 "\<lparr>log_pi = [0], mu = [[0, 0]], sigma = [[1, 1]], rho = [0]\<rparr>" 0 0]
  by (simp add: shaped_def valid_def)

section \<open>The attention window\<close>

lemma length_apply_linear:
  "length (apply_linear l x) = min (length (weight l)) (length (bias l))"
  by (simp add: apply_linear_def)

lemma length_projection: "wf_attention p \<Longrightarrow> length (projection p h) = 3 * n_mixtures p"
  by (simp add: projection_def wf_attention_def length_apply_linear)

lemma chunk3_multiple: "length xs = 3 * K \<Longrightarrow>
  chunk3 xs = (take K xs, take K (drop K xs), drop (2 * K) xs)"
proof -
  assume "length xs = 3 * K"
  then have "(length xs + 2) div 3 = K" by simp
  then show ?thesis unfolding chunk3_def Let_def by simp
qed

lemma sum_zip3_nth:
  assumes "length as = n" "length bs = n" "length cs = n"
  shows "(\<Sum>(a, b, c)\<leftarrow>zip as (zip bs cs). f a b c) = (\<Sum>k\<leftarrow>[0..<n]. f (as ! k) (bs ! k) (cs ! k))"
proof -
  have "map (\<lambda>(a, b, c). f a b c) (zip as (zip bs cs)) = map (\<lambda>k. f (as ! k) (bs ! k) (cs ! k)) [0..<n]"
    using assms by (intro nth_equalityI) simp_all
  then show ?thesis by simp
qed

lemma sum_zip_nth:
  assumes "length as = n" "length bs = n"
  shows "(\<Sum>(a, b)\<leftarrow>zip as bs. f a b) = (\<Sum>k\<leftarrow>[0..<n]. f (as ! k) (bs ! k))"
proof -
  have "map (\<lambda>(a, b). f a b) (zip as bs) = map (\<lambda>k. f (as ! k) (bs ! k)) [0..<n]"
    using assms by (intro nth_equalityI) simp_all
  then show ?thesis by simp
qed

lemma attention_row_eq:
  fixes p :: attention and h_t k_tm1 :: vec and ctx :: mat
  assumes "wf_attention p" "length k_tm1 = n_mixtures p"
  defines "kappa \<equiv> map2 (+) (delta_kappa_ref p h_t) k_tm1"
  defines "phi \<equiv> map (phi_ref (alpha_ref p h_t) (beta_ref p h_t) kappa) [0..<length ctx]"
  shows "attention_row p E h_t k_tm1 ctx = (window_ref phi ctx E, phi, kappa)"
proof -
  let ?K = "n_mixtures p"
  have len: "length (projection p h_t) = 3 * ?K"
    using assms(1) by (rule length_projection)
  have ch: "chunk3 (map exp (apply_linear (linear p) h_t)) = (alpha_ref p h_t, beta_ref p h_t, delta_kappa_ref p h_t)"
    using chunk3_multiple [OF len] by (simp add: alpha_ref_def beta_ref_def delta_kappa_ref_def projection_def)
  have lk: "length kappa = ?K"
    using len assms(2) by (simp add: kappa_def delta_kappa_ref_def)
  have la: "length (alpha_ref p h_t) = ?K" "length (beta_ref p h_t) = ?K"
    using len by (simp_all add: alpha_ref_def beta_ref_def)
  have phi: "map (\<lambda>u. \<Sum>(a, b, k)\<leftarrow>zip (alpha_ref p h_t) (zip (beta_ref p h_t) kappa). a * exp (- b * (k - u) ^ 2)) (map real [0..<length ctx]) = phi"
    unfolding phi_def phi_ref_def lk
    by (simp add: sum_zip3_nth [OF la lk] comp_def)
  have w: "map (\<lambda>e. \<Sum>(f, c)\<leftarrow>zip phi ctx. f * c ! e) [0..<E] = window_ref phi ctx E"
  proof -
    have "length phi = length ctx" by (simp add: phi_def)
    then have "(\<Sum>(f, c)\<leftarrow>zip phi ctx. f * c ! e) = (\<Sum>u\<leftarrow>[0..<length ctx]. phi ! u * ctx ! u ! e)" for e
      by (intro sum_zip_nth) simp_all
    then show ?thesis by (simp add: window_ref_def)
  qed
  show ?thesis
    unfolding attention_row_def ch prod.case Let_def kappa_def [symmetric] phi w ..
qed

lemma attention_forward_nth:
  assumes "length k_tm1 = length h_t" "length ctx = length h_t" "b < length h_t"
  shows "case attention_forward p E h_t k_tm1 ctx of (w, phi, kappa) \<Rightarrow>
           (w ! b, phi ! b, kappa ! b) = attention_row p E (h_t ! b) (k_tm1 ! b) (ctx ! b)"
  using assms by (simp add: attention_forward_def Let_def)

lemma attention_forward_length:
  assumes "length k_tm1 = length h_t" "length ctx = length h_t"
  shows "case attention_forward p E h_t k_tm1 ctx of (w, phi, kappa) \<Rightarrow>
           length w = length h_t \<and> length phi = length h_t \<and> length kappa = length h_t"
  using assms by (simp add: attention_forward_def Let_def)

text \<open>
  Claim C3. For a batch element \<open>b\<close> whose carried position state has \<open>K\<close> entries,
  the attention returns \<open>kappa = delta_kappa + k_tm1\<close>, the weights
  \<open>phi(u) = sum over k of alpha_k * exp (- beta_k * (kappa_k - u)^2)\<close> for the context
  positions \<open>u\<close> in \<open>[0, T)\<close>, and the context vector \<open>sum over u of phi(u) * ctx[u]\<close>.
  The weights are used as they are: nothing divides them by their sum.
\<close>

theorem attention_forward_window:
  assumes "wf_attention p"
    and "length k_tm1 = length h_t" "length ctx = length h_t"
    and "b < length h_t" "length (k_tm1 ! b) = n_mixtures p"
  shows "case attention_forward p E h_t k_tm1 ctx of (w, phi, kappa) \<Rightarrow>
           kappa ! b = map2 (+) (delta_kappa_ref p (h_t ! b)) (k_tm1 ! b)
         \<and> phi ! b = map (phi_ref (alpha_ref p (h_t ! b)) (beta_ref p (h_t ! b)) (kappa ! b))
                       [0..<length (ctx ! b)]
         \<and> w ! b = window_ref (phi ! b) (ctx ! b) E"
  using attention_forward_nth [OF assms(2,3,4), of p E]
    attention_row_eq [OF assms(1,5), of E "h_t ! b" "ctx ! b"]
  by (auto split: prod.splits)

theorem attention_forward_window_witness:
  "case attention_forward attention_example 1 [[0]] [[0]] [[[1]]] of (w, phi, kappa) \<Rightarrow>
     kappa ! 0 = [1] \<and> phi ! 0 = [exp (- 1)] \<and> w ! 0 = [exp (- 1)]"
  using attention_forward_window [of attention_example "[[0]]" "[[0]]" "[[[1]]]" 0 1]
  by (simp add: attention_example_def wf_attention_def delta_kappa_ref_def alpha_ref_def beta_ref_def
      projection_def apply_linear_def phi_ref_def window_ref_def split: prod.splits)

lemma attention_row_kappa_le:
  assumes "wf_attention p" "length k_tm1 = n_mixtures p"
  shows "list_all2 (\<le>) k_tm1 (snd (snd (attention_row p E h_t k_tm1 ctx)))
         \<and> length (snd (snd (attention_row p E h_t k_tm1 ctx))) = n_mixtures p"
proof -
  have len: "length (delta_kappa_ref p h_t) = n_mixtures p"
    using length_projection [OF assms(1), of h_t] by (simp add: delta_kappa_ref_def)
  have pos: "0 \<le> delta_kappa_ref p h_t ! i" if "i < n_mixtures p" for i
    using that len by (simp add: delta_kappa_ref_def projection_def)
  show ?thesis
    unfolding attention_row_eq [OF assms]
    using len assms(2) pos by (simp add: list_all2_conv_all_nth)
qed

lemma attention_forward_kappa_le:
  assumes "wf_attention p" "length k_tm1 = length h_t" "length ctx = length h_t"
    and "list_all (\<lambda>r. length r = n_mixtures p) k_tm1"
  shows "case attention_forward p E h_t k_tm1 ctx of (w, phi, kappa) \<Rightarrow>
           kappa_le k_tm1 kappa \<and> length kappa = length h_t
           \<and> list_all (\<lambda>r. length r = n_mixtures p) kappa"
proof -
  obtain w phi kappa where r: "attention_forward p E h_t k_tm1 ctx = (w, phi, kappa)"
    by (cases "attention_forward p E h_t k_tm1 ctx") auto
  have l: "length kappa = length h_t"
    using attention_forward_length [OF assms(2,3), of p E] r by simp
  have nth: "kappa ! b = snd (snd (attention_row p E (h_t ! b) (k_tm1 ! b) (ctx ! b)))"
    if "b < length h_t" for b
    using attention_forward_nth [OF assms(2,3) that, of p E] r by (simp split: prod.splits) (metis snd_conv)
  have row: "list_all2 (\<le>) (k_tm1 ! b) (kappa ! b) \<and> length (kappa ! b) = n_mixtures p"
    if "b < length h_t" for b
  proof -
    have "length (k_tm1 ! b) = n_mixtures p"
      using assms(2,4) that by (simp add: list_all_length)
    from attention_row_kappa_le [OF assms(1) this] show ?thesis
      by (simp add: nth [OF that])
  qed
  show ?thesis
    using l assms(2) row by (simp add: r kappa_le_def list_all2_conv_all_nth list_all_length)
qed

lemma rows_le_trans:
  fixes a b c :: vec
  assumes "list_all2 (\<le>) a b" "list_all2 (\<le>) b c"
  shows "list_all2 (\<le>) a c"
  using assms by (rule list_all2_trans [rotated]) simp

lemma kappa_le_trans:
  assumes "kappa_le a b" "kappa_le b c"
  shows "kappa_le a c"
  using assms unfolding kappa_le_def
  by (rule list_all2_trans [rotated]) (rule rows_le_trans)

lemma kappa_thread_sorted:
  assumes "wf_attention p"
  shows "calls_shaped (length k) calls \<Longrightarrow> list_all (\<lambda>r. length r = n_mixtures p) k \<Longrightarrow>
         sorted_wrt kappa_le (kappa_thread p E calls k)
         \<and> list_all (kappa_le k) (kappa_thread p E calls k)"
proof (induction calls arbitrary: k)
  case Nil
  then show ?case by simp
next
  case (Cons call calls)
  obtain h_t ctx where call: "call = (h_t, ctx)" by (cases call)
  obtain w phi kappa where r: "attention_forward p E h_t k ctx = (w, phi, kappa)"
    by (cases "attention_forward p E h_t k ctx") auto
  have sh: "length k = length h_t" "length ctx = length h_t" "calls_shaped (length k) calls"
    using Cons.prems(1) by (simp_all add: calls_shaped_def call)
  have step: "kappa_le k kappa" "length kappa = length h_t"
    "list_all (\<lambda>r. length r = n_mixtures p) kappa"
    using attention_forward_kappa_le [OF assms sh(1,2) Cons.prems(2), of E] r by simp_all
  have "calls_shaped (length kappa) calls"
    using sh step(2) by simp
  from Cons.IH [OF this step(3)]
  have ih: "sorted_wrt kappa_le (kappa_thread p E calls kappa)"
    "list_all (kappa_le kappa) (kappa_thread p E calls kappa)"
    by simp_all
  have "list_all (kappa_le k) (kappa_thread p E calls kappa)"
    using ih(2) step(1) by (auto simp: list_all_iff intro: kappa_le_trans)
  then show ?case
    using ih step(1) by (simp add: call r list_all_iff)
qed

lemma delta_kappa_nonneg: "list_all (\<lambda>d. 0 \<le> d) (delta_kappa_ref p h)"
  by (auto simp: delta_kappa_ref_def projection_def list_all_iff dest!: in_set_dropD)

lemma attention_forward_kappa_eq:
  assumes "wf_attention p" "length k_tm1 = length h_t" "length ctx = length h_t"
    and "list_all (\<lambda>r. length r = n_mixtures p) k_tm1"
  shows "snd (snd (attention_forward p E h_t k_tm1 ctx)) =
           map2 (\<lambda>h k. map2 (+) (delta_kappa_ref p h) k) h_t k_tm1"
proof (rule nth_equalityI)
  show "length (snd (snd (attention_forward p E h_t k_tm1 ctx))) =
        length (map2 (\<lambda>h k. map2 (+) (delta_kappa_ref p h) k) h_t k_tm1)"
    using assms(2,3) by (simp add: attention_forward_def Let_def)
next
  fix b assume "b < length (snd (snd (attention_forward p E h_t k_tm1 ctx)))"
  then have b: "b < length h_t"
    using assms(2,3) by (simp add: attention_forward_def Let_def)
  have "length (k_tm1 ! b) = n_mixtures p"
    using assms(2,4) b by (simp add: list_all_length)
  from attention_row_eq [OF assms(1) this, of E "h_t ! b" "ctx ! b"]
  show "snd (snd (attention_forward p E h_t k_tm1 ctx)) ! b =
        map2 (\<lambda>h k. map2 (+) (delta_kappa_ref p h) k) h_t k_tm1 ! b"
    using b assms(2,3) by (simp add: attention_forward_def Let_def)
qed

lemma kappa_thread_eq_ref:
  assumes "wf_attention p"
  shows "calls_shaped (length k) calls \<Longrightarrow> list_all (\<lambda>r. length r = n_mixtures p) k \<Longrightarrow>
         kappa_thread p E calls k = kappa_thread_ref p (map fst calls) k"
proof (induction calls arbitrary: k)
  case Nil
  then show ?case by simp
next
  case (Cons call calls)
  obtain h_t ctx where call: "call = (h_t, ctx)" by (cases call)
  obtain w phi kappa where r: "attention_forward p E h_t k ctx = (w, phi, kappa)"
    by (cases "attention_forward p E h_t k ctx") auto
  have sh: "length k = length h_t" "length ctx = length h_t" "calls_shaped (length k) calls"
    using Cons.prems(1) by (simp_all add: calls_shaped_def call)
  have step: "length kappa = length h_t" "list_all (\<lambda>r. length r = n_mixtures p) kappa"
    using attention_forward_kappa_le [OF assms sh(1,2) Cons.prems(2), of E] r by simp_all
  have eq: "kappa = map2 (\<lambda>h k. map2 (+) (delta_kappa_ref p h) k) h_t k"
    using attention_forward_kappa_eq [OF assms sh(1,2) Cons.prems(2), of E] r by simp
  have "calls_shaped (length kappa) calls"
    using sh step(1) by simp
  from Cons.IH [OF this step(2)]
  show ?case
    by (simp add: call r Let_def eq [symmetric])
qed

text \<open>
  Claim C4. Over any sequence of invocations that carries the returned \<open>kappa\<close> into
  the next one, every invocation returns the carried state plus the increment
  \<open>delta_kappa\<close>, the exponential of a part of the linear projection of the hidden state;
  no increment is negative, and the list of the carried state followed by the returned
  position states is non-decreasing in every component.
\<close>

theorem kappa_thread_monotone:
  assumes "wf_attention p" "calls_shaped (length k) calls"
    and "list_all (\<lambda>r. length r = n_mixtures p) k"
  shows "kappa_thread p E calls k = kappa_thread_ref p (map fst calls) k
         \<and> list_all (\<lambda>(h_t, ctx). list_all (\<lambda>h. list_all (\<lambda>d. 0 \<le> d) (delta_kappa_ref p h)) h_t)
              calls
         \<and> sorted_wrt kappa_le (k # kappa_thread p E calls k)"
proof -
  have "list_all (\<lambda>(h_t, ctx). list_all (\<lambda>h. list_all (\<lambda>d. 0 \<le> d) (delta_kappa_ref p h)) h_t)
          calls"
    using delta_kappa_nonneg [of p] by (auto simp: list_all_iff)
  then show ?thesis
    using kappa_thread_sorted [OF assms, of E] kappa_thread_eq_ref [OF assms, of E]
    by (simp add: list_all_iff)
qed

theorem kappa_thread_monotone_witness:
  "sorted_wrt kappa_le
     ([[0]] # kappa_thread attention_example 1 [([[0]], [[[1]]]), ([[0]], [[[1]]])] [[0]])"
proof -
  have a: "wf_attention attention_example"
    by (simp add: attention_example_def wf_attention_def)
  have b: "calls_shaped (length [[0 :: real]]) [([[0]], [[[1]]]), ([[0]], [[[1]]])]"
    by (simp add: calls_shaped_def)
  have c: "list_all (\<lambda>r. length r = n_mixtures attention_example) [[0 :: real]]"
    by (simp add: attention_example_def)
  from kappa_thread_monotone [OF a b c, of 1] show ?thesis
    by blast
qed

section \<open>Sampling from the mixture\<close>

text \<open>For a correlation in \<open>[-1, 1]\<close> the power \<open>0.5\<close> is the square root.\<close>

lemma sample_point_ref:
  assumes "- 1 \<le> rho d ! i" "rho d ! i \<le> 1"
  shows "sample_point d i z1 z2 =
         sample_ref (mu d ! i ! 0) (mu d ! i ! 1) (sigma d ! i ! 0) (sigma d ! i ! 1) (rho d ! i) z1 z2"
proof -
  have "(rho d ! i) ^ 2 \<le> 1"
    using assms by (simp add: abs_square_le_1 abs_le_iff)
  then have "(1 - (rho d ! i) ^ 2) powr 0.5 = sqrt (1 - (rho d ! i) ^ 2)"
    using powr_half_sqrt [of "1 - (rho d ! i) ^ 2"] by simp
  then show ?thesis
    by (simp add: sample_point_def sample_ref_def Let_def)
qed

text \<open>
  The coefficients of \<open>z1\<close> and \<open>z2\<close> in \<open>x2\<close> have the squares that sum to the
  variance \<open>sigma2^2\<close>, and the coefficient of \<open>z1\<close> is \<open>rho * sigma2\<close>: the second
  row of the Cholesky factor of the covariance.
\<close>

lemma cholesky_factor:
  fixes r s1 s2 :: real
  assumes "- 1 \<le> r" "r \<le> 1"
  shows "(s2 * r) ^ 2 + (s2 * sqrt (1 - r ^ 2)) ^ 2 = s2 ^ 2"
proof -
  have "r ^ 2 \<le> 1"
    using assms by (simp add: abs_square_le_1 abs_le_iff)
  then have "(sqrt (1 - r ^ 2)) ^ 2 = 1 - r ^ 2" by simp
  moreover have "(s2 * r) ^ 2 + (s2 * sqrt (1 - r ^ 2)) ^ 2 =
                 s2 ^ 2 * (r ^ 2 + (sqrt (1 - r ^ 2)) ^ 2)"
    by (simp add: power_mult_distrib distrib_left)
  ultimately show ?thesis by simp
qed

text \<open>
  Claim C5. \<open>sample\<close> returns one point per batch element. For the batch element \<open>b\<close>
  the component index is the one the multinomial draw returns on the exponentiated
  log-weights, the mean, the standard deviation and the correlation are gathered at that
  index, and with the two normal draws \<open>z1\<close> and \<open>z2\<close> the point is
  \<open>x1 = mu1 + sigma1 * z1\<close>, \<open>x2 = mu2 + sigma2 * (z2 * sqrt (1 - rho^2) + z1 * rho)\<close>;
  the squares of the two coefficients in \<open>x2\<close> sum to \<open>sigma2^2\<close>.
\<close>

theorem sample_reference:
  assumes "b < length ds"
    and "length (multinomial g (map (\<lambda>d. map exp (log_pi d)) ds)) = length ds"
    and "length (randn1 g) = length ds" "length (randn2 g) = length ds"
    and "multinomial g (map (\<lambda>d. map exp (log_pi d)) ds) ! b < length (rho (ds ! b))"
    and "valid (ds ! b)"
  shows "length (sample g ds) = length ds \<and>
         sample g ds ! b =
           (let d = ds ! b;
                i = multinomial g (map (\<lambda>d. map exp (log_pi d)) ds) ! b
            in sample_ref (mu d ! i ! 0) (mu d ! i ! 1) (sigma d ! i ! 0) (sigma d ! i ! 1)
                 (rho d ! i) (randn1 g ! b) (randn2 g ! b)) \<and>
         (let d = ds ! b;
              i = multinomial g (map (\<lambda>d. map exp (log_pi d)) ds) ! b;
              sigma2 = sigma d ! i ! 1; r = rho d ! i
          in (sigma2 * r) ^ 2 + (sigma2 * sqrt (1 - r ^ 2)) ^ 2 = sigma2 ^ 2)"
proof -
  let ?i = "multinomial g (map (\<lambda>d. map exp (log_pi d)) ds) ! b"
  have r: "- 1 \<le> rho (ds ! b) ! ?i" "rho (ds ! b) ! ?i \<le> 1"
    using assms(5,6) by (auto simp: valid_def list_all_length less_imp_le)
  have "sample g ds ! b = sample_point (ds ! b) ?i (randn1 g ! b) (randn2 g ! b)"
    using assms(1-4) by (simp add: sample_def Let_def)
  then show ?thesis
    using assms(1-4) sample_point_ref [OF r] cholesky_factor [OF r]
    by (simp add: sample_def Let_def)
qed

theorem sample_reference_witness:
  "sample draws_example [mixture_example] ! 0 = [1, 1]"
  using sample_reference [of 0 "[mixture_example]" draws_example]
  by (simp add: draws_example_def mixture_example_def valid_def sample_ref_def)

section \<open>The layers of the decoder\<close>

lemma py_nth_Inr:
  assumes "- int (length xs) \<le> i" "i < int (length xs)"
  shows "\<exists>v. py_nth xs i = Inr v"
  using assms by (simp add: py_nth_def)

text \<open>
  The inner loop writes the entries \<open>j\<close> of its items only: with every \<open>j + 1\<close> below
  the number of layers it returns, and the last entries are the ones it was given.
\<close>

lemma layers_loop_frame:
  assumes "list_all (\<lambda>item. Suc (fst item) < length h) items" "length c = length h"
  shows "\<exists>h' c'. layers_loop x w items (h, c) = Inr (h', c')
           \<and> length h' = length h \<and> length c' = length h
           \<and> h' ! (length h - 1) = h ! (length h - 1)
           \<and> c' ! (length h - 1) = c ! (length h - 1)"
  using assms
proof (induction items arbitrary: h c)
  case Nil
  then show ?case by simp
next
  case (Cons item items)
  obtain j l ph pc where item: "item = (j, l, ph, pc)"
    by (cases item) auto
  have j: "Suc j < length h"
    using Cons.prems(1) by (simp add: item)
  obtain v where v: "py_nth h (int j - 1) = Inr v"
    using py_nth_Inr [of h "int j - 1"] j by auto
  obtain hj cj where l: "l (cat1 [x, w, v]) (ph, pc) = (hj, cj)"
    by (cases "l (cat1 [x, w, v]) (ph, pc)") auto
  have s: "py_set h j hj = Inr (h[j := hj])" "py_set c j cj = Inr (c[j := cj])"
    using j Cons.prems(2) by (simp_all add: py_set_def)
  have "list_all (\<lambda>item. Suc (fst item) < length (h[j := hj])) items"
    using Cons.prems(1) by simp
  moreover have "length (c[j := cj]) = length (h[j := hj])"
    using Cons.prems(2) by simp
  ultimately obtain h' c' where r: "layers_loop x w items (h[j := hj], c[j := cj]) = Inr (h', c')"
    "length h' = length h" "length c' = length h"
    "h' ! (length h - 1) = h[j := hj] ! (length h - 1)"
    "c' ! (length h - 1) = c[j := cj] ! (length h - 1)"
    using Cons.IH [of "h[j := hj]" "c[j := cj]"] by auto
  have "j \<noteq> length h - 1"
    using j by simp
  then show ?case
    using r by (simp add: item v l s)
qed

lemma enumerate_bound:
  "list_all (\<lambda>item. fst item < n + length xs) (enumerate n xs)"
  by (auto simp: list_all_iff in_set_enumerate_eq)

lemma decoder_step_frame:
  assumes "1 \<le> length h" "length c = length h"
  shows "\<exists>h' c' w' k'.
           decoder_step p ctx x (h, c, w, k) =
             Inr (map (apply_linear (output_lin p)) (cat1 h'), (h', c', w', k'))
           \<and> length h' = length h \<and> length c' = length h
           \<and> (2 \<le> length h \<longrightarrow>
                h' ! (length h - 1) = h ! (length h - 1)
                \<and> c' ! (length h - 1) = c ! (length h - 1))"
proof -
  have n0: "py_nth h 0 = Inr (h ! 0)" "py_nth c 0 = Inr (c ! 0)"
    using assms by (auto simp: py_nth_def)
  obtain h0 c0 where l0: "layer_0 p (cat1 [x, w]) (h ! 0, c ! 0) = (h0, c0)"
    by (cases "layer_0 p (cat1 [x, w]) (h ! 0, c ! 0)") auto
  define h1 c1 where "h1 = h[0 := h0]" and "c1 = c[0 := c0]"
  obtain w' phi k' where at:
    "attention_forward (attention p) (enc_size p) (h1 ! 0) k ctx = (w', phi, k')"
    by (cases "attention_forward (attention p) (enc_size p) (h1 ! 0) k ctx") auto
  define items where "items = enumerate 0 (zip (layer_n p) (zip (drop 1 h1) (drop 1 c1)))"
  have len: "length h1 = length h" "length c1 = length h1"
    using assms by (simp_all add: h1_def c1_def)
  have "list_all (\<lambda>item. fst item < 0 + length (zip (layer_n p) (zip (drop 1 h1) (drop 1 c1)))) items"
    unfolding items_def by (rule enumerate_bound)
  then have "list_all (\<lambda>item. Suc (fst item) < length h1) items"
    by (auto simp: list_all_iff)
  from layers_loop_frame [OF this len(2), of x w']
  obtain h' c' where r: "layers_loop x w' items (h1, c1) = Inr (h', c')"
    "length h' = length h1" "length c' = length h1"
    "h' ! (length h1 - 1) = h1 ! (length h1 - 1)"
    "c' ! (length h1 - 1) = c1 ! (length h1 - 1)"
    by auto
  have fr: "h1 ! (length h - 1) = h ! (length h - 1)" "c1 ! (length h - 1) = c ! (length h - 1)"
    if "2 \<le> length h"
    using that by (simp_all add: h1_def c1_def)
  have items': "enumerate 0 (zip (layer_n p) (zip (drop (Suc 0) h) (drop (Suc 0) c))) = items"
    by (simp add: items_def h1_def c1_def)
  have "decoder_step p ctx x (h, c, w, k) =
          Inr (map (apply_linear (output_lin p)) (cat1 h'), (h', c', w', k'))"
    unfolding decoder_step_def
    by (simp add: n0 l0 Let_def h1_def [symmetric] c1_def [symmetric] at items' r(1))
  then show ?thesis
    using r(2-5) len fr by auto
qed

lemma decoder_steps_frame:
  assumes "1 \<le> length h" "length c = length h"
  shows "\<exists>h' c' w' k'.
           decoder_steps p ctx xs (h, c, w, k) outs =
             Inr (outs @ map (project p) (decoder_trace p ctx xs (h, c, w, k)), (h', c', w', k'))
           \<and> length h' = length h \<and> length c' = length h
           \<and> length (decoder_trace p ctx xs (h, c, w, k)) = length xs
           \<and> (2 \<le> length h \<longrightarrow>
                frozen h h' \<and> frozen c c'
                \<and> list_all (frozen h) (decoder_trace p ctx xs (h, c, w, k)))"
  using assms
proof (induction xs arbitrary: h c w k outs)
  case Nil
  then show ?case by (simp add: frozen_def)
next
  case (Cons x xs)
  from decoder_step_frame [OF Cons.prems, of p ctx x w k]
  obtain h1 c1 w1 k1 where s:
    "decoder_step p ctx x (h, c, w, k) = Inr (project p h1, (h1, c1, w1, k1))"
    "length h1 = length h" "length c1 = length h"
    "2 \<le> length h \<Longrightarrow> h1 ! (length h - 1) = h ! (length h - 1)"
    "2 \<le> length h \<Longrightarrow> c1 ! (length h - 1) = c ! (length h - 1)"
    unfolding project_def by blast
  have p1: "1 \<le> length h1" "length c1 = length h1"
    using s(2,3) Cons.prems by simp_all
  from Cons.IH [OF p1, of w1 k1 "outs @ [project p h1]"]
  obtain h' c' w' k' where r:
    "decoder_steps p ctx xs (h1, c1, w1, k1) (outs @ [project p h1]) =
       Inr ((outs @ [project p h1]) @ map (project p) (decoder_trace p ctx xs (h1, c1, w1, k1)),
            (h', c', w', k'))"
    "length h' = length h1" "length c' = length h1"
    "length (decoder_trace p ctx xs (h1, c1, w1, k1)) = length xs"
    "2 \<le> length h1 \<Longrightarrow> frozen h1 h' \<and> frozen c1 c'
        \<and> list_all (frozen h1) (decoder_trace p ctx xs (h1, c1, w1, k1))"
    by blast
  have eq: "decoder_steps p ctx (x # xs) (h, c, w, k) outs =
          Inr (outs @ map (project p) (decoder_trace p ctx (x # xs) (h, c, w, k)), (h', c', w', k'))"
    by (simp add: s(1) r(1))
  have tr: "decoder_trace p ctx (x # xs) (h, c, w, k) = h1 # decoder_trace p ctx xs (h1, c1, w1, k1)"
    by (simp add: s(1))
  have fz: "frozen h h' \<and> frozen c c' \<and> list_all (frozen h) (decoder_trace p ctx (x # xs) (h, c, w, k))"
    if two: "2 \<le> length h"
  proof -
    have a: "frozen h h1" "frozen c c1"
      using s(2-5) two Cons.prems(2) by (simp_all add: frozen_def)
    have b: "frozen h1 h'" "frozen c1 c'" "list_all (frozen h1) (decoder_trace p ctx xs (h1, c1, w1, k1))"
      using r(5) two s(2) by simp_all
    have t: "frozen h1 y \<Longrightarrow> frozen h y" for y
      using a(1) by (simp add: frozen_def)
    have t': "frozen c1 y \<Longrightarrow> frozen c y" for y
      using a(2) by (simp add: frozen_def)
    show ?thesis
      unfolding tr using a b t t' by (simp add: list_all_iff del: decoder_trace.simps)
  qed
  show ?case
    using eq r(2,3,4) s(2) fz unfolding tr by (simp del: decoder_trace.simps decoder_steps.simps)
qed

text \<open>
  Claim C7. With \<open>N \<ge> 2\<close> layers, a call of the decoder's \<open>forward\<close> on at least
  one time step returns, and the hidden and the cell state at index \<open>N - 1\<close> of the
  returned state are the ones of the state it started from (on a first call, the learned
  initial vectors, repeated over the batch). The same holds for the list of hidden states
  after every step, and the output of the step is the projection of the concatenation of
  that list, which holds the unchanged last hidden state.
\<close>

theorem decoder_last_layer_frozen:
  assumes "start_states p strokes prev_states = (h, c, w, k)"
    and "2 \<le> length h" "length c = length h" "transpose strokes \<noteq> []"
  shows "case decoder_forward p strokes ctx prev_states of
           Inl e \<Rightarrow> False
         | Inr (outs, (h', c', w', k')) \<Rightarrow>
             frozen h h' \<and> frozen c c'
             \<and> outs = transpose (map (project p)
                         (decoder_trace p ctx (transpose strokes) (h, c, w, k)))
             \<and> length (decoder_trace p ctx (transpose strokes) (h, c, w, k))
                 = length (transpose strokes)
             \<and> list_all (frozen h) (decoder_trace p ctx (transpose strokes) (h, c, w, k))
             \<and> (prev_states = None \<longrightarrow>
                  frozen (map (replicate (length strokes)) (h_0 p)) h'
                  \<and> frozen (map (replicate (length strokes)) (c_0 p)) c')"
proof -
  have one: "1 \<le> length h"
    using assms(2) by simp
  from decoder_steps_frame [OF one assms(3), of p ctx "transpose strokes" w k "[]"]
  obtain h' c' w' k' where r:
    "decoder_steps p ctx (transpose strokes) (h, c, w, k) [] =
       Inr (map (project p) (decoder_trace p ctx (transpose strokes) (h, c, w, k)),
            (h', c', w', k'))"
    "length (decoder_trace p ctx (transpose strokes) (h, c, w, k)) = length (transpose strokes)"
    "frozen h h'" "frozen c c'"
    "list_all (frozen h) (decoder_trace p ctx (transpose strokes) (h, c, w, k))"
    using assms(2) by auto
  have ne: "map (project p) (decoder_trace p ctx (transpose strokes) (h, c, w, k)) \<noteq> []"
    using r(2) assms(4) by auto
  have st: "(case prev_states of None \<Rightarrow> init_states p (length strokes) | Some s \<Rightarrow> s) = (h, c, w, k)"
    using assms(1) by (simp add: start_states_def)
  have first: "h = map (replicate (length strokes)) (h_0 p)
               \<and> c = map (replicate (length strokes)) (c_0 p)" if "prev_states = None"
    using assms(1) that by (simp add: start_states_def init_states_def)
  show ?thesis
    unfolding decoder_forward_def Let_def st
    using ne r first by auto
qed

lemma init_states_frozen:
  "start_states p strokes None =
     (map (replicate (length strokes)) (h_0 p), map (replicate (length strokes)) (c_0 p),
      replicate (length strokes) (w_0 p), replicate (length strokes) (k_0 p))"
  by (simp add: start_states_def init_states_def)

theorem decoder_last_layer_frozen_witness:
  "case decoder_forward decoder_example [[[0, 0, 0]]] [[[1]]] None of
     Inl e \<Rightarrow> False
   | Inr (outs, (h', c', w', k')) \<Rightarrow> h' ! 1 = [[20]] \<and> c' ! 1 = [[40]]"
  using decoder_last_layer_frozen
    [of decoder_example "[[[0, 0, 0]]]" None "[[[10]], [[20]]]" "[[[30]], [[40]]]" "[[0]]" "[[0]]" "[[[1]]]"]
  by (simp add: start_states_def init_states_def decoder_example_def frozen_def
      split: sum.splits prod.splits)

text \<open>
  Claim C1, at a concrete input. Layer 0 produces the hidden state \<open>1\<close>; were layer 1 to
  consume it and to write its own entry, the new hidden states would be \<open>[1, 1]\<close> and the
  new cell states \<open>[2, 41]\<close>. The loop counts from \<open>0\<close>: the cell of layer 1 is given
  \<open>h_tm1[-1]\<close>, the previous hidden state \<open>20\<close> of the last layer, and its result is
  written to the entries of layer 0.
\<close>

theorem decoder_step_layer_chain_example:
  "decoder_step decoder_example [[[1]]] [[0, 0, 0]]
     ([[[10]], [[20]]], [[[30]], [[40]]], [[0]], [[0]]) =
   Inr ([[0]], ([[[20]], [[20]]], [[[41]], [[40]]], [[exp (- 1)]], [[1]]))"
  by (simp add: decoder_step_def decoder_example_def attention_example_def py_nth_def py_set_def
      cat1_def attention_forward_def attention_row_def chunk3_def apply_linear_def enumerate_eq_zip
      Let_def)

section \<open>The decoder returns\<close>








section \<open>The generation loop\<close>













section \<open>Contract violations\<close>




end
